theory Spec2Isabelle
  imports Complex_Main
begin

section \<open>Resizing a rotated rectangle by its handles: the model of main.py\<close>

text \<open>
  The program is read twice. The first reading takes Python's \<^verbatim>\<open>float\<close> as \<^typ>\<open>real\<close>:
  the program's formulas in exact arithmetic, with no rounding, no NaN and no infinity.
  The second reading (the definitions with the suffix \<open>_f64\<close>) rounds the result of
  every arithmetic operation to IEEE 754 binary64, as the interpreter does. A statement
  about the first reading is a statement about the formulas over the reals; what the
  running program returns at a given input is what the second reading computes.
\<close>

section \<open>The program over the reals\<close>

subsection \<open>Values and errors\<close>

text \<open>
  The Python values that can reach an index or a handle parameter. A \<^verbatim>\<open>bool\<close> is an
  \<^verbatim>\<open>int\<close> in Python (\<^verbatim>\<open>True\<close> is \<open>PyInt 1\<close>); a member of the \<^verbatim>\<open>IntEnum\<close> below is the
  \<^verbatim>\<open>int\<close> of its value.
\<close>

datatype pyval = PyInt int | PyFloat real | PyStr string | PyNone

datatype error = TypeError | IndexError

text \<open>
  The outcome of a call is \<open>Inl e\<close> when the call raises \<open>e\<close>, \<open>Inr (Some v)\<close> when it
  returns \<open>v\<close>, and \<open>Inr None\<close> when the body ends without a \<^verbatim>\<open>return\<close>, so that the call
  evaluates to Python's \<^verbatim>\<open>None\<close>.
\<close>

type_synonym 'a outcome = "error + 'a option"

subsection \<open>class Handle(IntEnum)\<close>

datatype Handle =
    TOP_RIGHT | MIDDLE_RIGHT | BOTTOM_RIGHT
  | TOP_LEFT | MIDDLE_LEFT | BOTTOM_LEFT
  | TOP_MIDDLE | BOTTOM_MIDDLE

fun Handle_value :: "Handle \<Rightarrow> int" where
  "Handle_value TOP_RIGHT = 0"
| "Handle_value MIDDLE_RIGHT = 1"
| "Handle_value BOTTOM_RIGHT = 2"
| "Handle_value TOP_LEFT = 3"
| "Handle_value MIDDLE_LEFT = 4"
| "Handle_value BOTTOM_LEFT = 5"
| "Handle_value TOP_MIDDLE = 6"
| "Handle_value BOTTOM_MIDDLE = 7"

text \<open>The member itself, as the value a caller passes.\<close>

definition Handle_member :: "Handle \<Rightarrow> pyval" where
  "Handle_member h = PyInt (Handle_value h)"

text \<open>
  A \<^verbatim>\<open>case Handle.M:\<close> of a \<^verbatim>\<open>match\<close> statement is a value pattern: it succeeds when
  the subject compares equal (\<^verbatim>\<open>==\<close>) to the member, which compares as its \<^verbatim>\<open>int\<close>.
\<close>

fun matches :: "pyval \<Rightarrow> Handle \<Rightarrow> bool" where
  "matches (PyInt i) h = (i = Handle_value h)"
| "matches (PyFloat r) h = (r = of_int (Handle_value h))"
| "matches (PyStr s) h = False"
| "matches PyNone h = False"

subsection \<open>class Point\<close>

record Point =
  x :: real
  y :: real

definition Point_pos :: "Point \<Rightarrow> real \<times> real" where
  "Point_pos self = (Point.x self, Point.y self)"

definition getitem :: "Point \<Rightarrow> pyval \<Rightarrow> error + real" where
  "getitem self index =
     (case index of
        PyInt i \<Rightarrow>
          if i = 0 then Inr (Point.x self)
          else if i = 1 then Inr (Point.y self)
          else Inl IndexError
      | _ \<Rightarrow> Inl TypeError)"

text \<open>\<^verbatim>\<open>__iter__\<close> yields \<open>x\<close>, then \<open>y\<close>.\<close>

definition iter :: "Point \<Rightarrow> real list" where
  "iter self = [Point.x self, Point.y self]"

subsection \<open>class Rectangle\<close>

record Rectangle =
  x :: real
  y :: real
  width :: real
  height :: real

definition pcenter :: "Rectangle \<Rightarrow> Point" where
  "pcenter self =
     \<lparr>Point.x = Rectangle.x self + width self / 2,
      Point.y = Rectangle.y self + height self / 2\<rparr>"

definition Rectangle_center :: "Rectangle \<Rightarrow> real \<times> real" where
  "Rectangle_center self =
     (Rectangle.x self + width self / 2, Rectangle.y self + height self / 2)"

definition Rectangle_size :: "Rectangle \<Rightarrow> real \<times> real" where
  "Rectangle_size self = (width self, height self)"

definition ppos :: "Rectangle \<Rightarrow> Point" where
  "ppos self = \<lparr>Point.x = Rectangle.x self, Point.y = Rectangle.y self\<rparr>"

definition Rectangle_pos :: "Rectangle \<Rightarrow> real \<times> real" where
  "Rectangle_pos self = (Rectangle.x self, Rectangle.y self)"

subsection \<open>rotate\<close>

text \<open>\<^verbatim>\<open>math.radians\<close>: degrees to radians.\<close>

definition radians :: "real \<Rightarrow> real" where
  "radians d = d * (pi / 180)"

definition rotate_point :: "Point \<Rightarrow> Point \<Rightarrow> real \<Rightarrow> Point" where
  "rotate_point point origin angle =
     (let angle = radians angle in
      \<lparr>Point.x = (Point.x point - Point.x origin) * cos angle
                  - (Point.y point - Point.y origin) * sin angle + Point.x origin,
       Point.y = (Point.x point - Point.x origin) * sin angle
                  + (Point.y point - Point.y origin) * cos angle + Point.y origin\<rparr>)"

subsection \<open>adjust\_points\<close>

definition adjust_points :: "Point \<Rightarrow> Point \<Rightarrow> Point \<Rightarrow> real \<Rightarrow> Point \<times> Point" where
  "adjust_points corner_a corner_c center angle =
     (let rotated_a = rotate_point corner_a center angle;
          new_center = \<lparr>Point.x = (Point.x rotated_a + Point.x corner_c) / 2,
                        Point.y = (Point.y rotated_a + Point.y corner_c) / 2\<rparr>
      in (rotate_point rotated_a new_center (- angle), rotate_point corner_c new_center (- angle)))"

subsection \<open>get\_adjusted\_point\<close>

definition get_adjusted_point ::
  "Rectangle \<Rightarrow> Point \<Rightarrow> real \<Rightarrow> pyval \<Rightarrow> (Point \<times> Point) outcome" where
  "get_adjusted_point rectangle target angle handle =
     (let normal_c = rotate_point target (pcenter rectangle) (- angle) in
      if matches handle TOP_RIGHT then
        Inr (Some (\<lparr>Point.x = Rectangle.x rectangle, Point.y = Rectangle.y rectangle\<rparr>,
                   target))
      else if matches handle MIDDLE_RIGHT then
        (let interpolated_d = \<lparr>Point.x = Point.x normal_c,
                                Point.y = Rectangle.y rectangle + height rectangle\<rparr>
         in Inr (Some (\<lparr>Point.x = Rectangle.x rectangle, Point.y = Rectangle.y rectangle\<rparr>,
                       rotate_point interpolated_d (pcenter rectangle) angle)))
      else if matches handle BOTTOM_RIGHT then
        Inr (Some (\<lparr>Point.x = Rectangle.x rectangle,
                     Point.y = Rectangle.y rectangle + height rectangle\<rparr>,
                   target))
      else if matches handle TOP_LEFT then
        Inr (Some (\<lparr>Point.x = Rectangle.x rectangle + width rectangle,
                     Point.y = Rectangle.y rectangle\<rparr>,
                   target))
      else if matches handle MIDDLE_LEFT then
        (let interpolated_d = \<lparr>Point.x = Point.x normal_c,
                                Point.y = Rectangle.y rectangle + height rectangle\<rparr>
         in Inr (Some (\<lparr>Point.x = Rectangle.x rectangle + width rectangle,
                         Point.y = Rectangle.y rectangle\<rparr>,
                       rotate_point interpolated_d (pcenter rectangle) angle)))
      else if matches handle BOTTOM_LEFT then
        Inr (Some (\<lparr>Point.x = Rectangle.x rectangle + width rectangle,
                     Point.y = Rectangle.y rectangle + height rectangle\<rparr>,
                   target))
      else if matches handle TOP_MIDDLE then
        (let interpolated_d = \<lparr>Point.x = Rectangle.x rectangle + width rectangle,
                                Point.y = Point.y normal_c\<rparr>
         in Inr (Some (\<lparr>Point.x = Rectangle.x rectangle, Point.y = Rectangle.y rectangle\<rparr>,
                       rotate_point interpolated_d (pcenter rectangle) angle)))
      else if matches handle BOTTOM_MIDDLE then
        (let interpolated_d = \<lparr>Point.x = Rectangle.x rectangle + width rectangle,
                                Point.y = Point.y normal_c\<rparr>
         in Inr (Some (\<lparr>Point.x = Rectangle.x rectangle,
                         Point.y = Rectangle.y rectangle + height rectangle\<rparr>,
                       rotate_point interpolated_d (pcenter rectangle) angle)))
      else Inr None)"

subsection \<open>to\_rect\<close>

text \<open>
  \<^verbatim>\<open>Rectangle(*a, w, h)\<close> unpacks the point through \<^verbatim>\<open>__iter__\<close>; the constructor takes
  exactly four arguments and raises \<^verbatim>\<open>TypeError\<close> otherwise.
\<close>

definition Rectangle_star :: "real list \<Rightarrow> real \<Rightarrow> real \<Rightarrow> error + Rectangle" where
  "Rectangle_star args w h =
     (case args of
        [a0, a1] \<Rightarrow> Inr \<lparr>Rectangle.x = a0, Rectangle.y = a1, width = w, height = h\<rparr>
      | _ \<Rightarrow> Inl TypeError)"

definition to_rect :: "Point \<Rightarrow> Point \<Rightarrow> pyval \<Rightarrow> Rectangle outcome" where
  "to_rect a c handle =
     (if matches handle TOP_RIGHT \<or> matches handle MIDDLE_RIGHT \<or> matches handle TOP_MIDDLE then
        (case Rectangle_star (iter a) (Point.x c - Point.x a) (Point.y c - Point.y a) of
           Inl e \<Rightarrow> Inl e
         | Inr r \<Rightarrow> Inr (Some r))
      else if matches handle BOTTOM_RIGHT then
        (let height' = Point.y a - Point.y c in
         Inr (Some \<lparr>Rectangle.x = Point.x a, Rectangle.y = Point.y a - height',
                    width = Point.x c - Point.x a, height = height'\<rparr>))
      else if matches handle TOP_LEFT \<or> matches handle MIDDLE_LEFT then
        (let height' = Point.y c - Point.y a in
         Inr (Some \<lparr>Rectangle.x = Point.x c, Rectangle.y = Point.y c - height',
                    width = Point.x a - Point.x c, height = height'\<rparr>))
      else if matches handle BOTTOM_LEFT then
        Inr (Some \<lparr>Rectangle.x = Point.x c, Rectangle.y = Point.y c,
                   width = Point.x a - Point.x c, height = Point.y a - Point.y c\<rparr>)
      else if matches handle BOTTOM_MIDDLE then
        Inr (Some \<lparr>Rectangle.x = Point.x a, Rectangle.y = Point.y c,
                   width = Point.x c - Point.x a, height = Point.y a - Point.y c\<rparr>)
      else Inr None)"

section \<open>The program over binary64\<close>

subsection \<open>Rounding\<close>

text \<open>
  Round to the nearest integer, ties to the even one.
\<close>

definition round_half_even :: "real \<Rightarrow> int" where
  "round_half_even q =
     (let n = \<lfloor>q\<rfloor>; r = q - of_int n in
      if r < 1 / 2 then n else if 1 / 2 < r then n + 1 else if even n then n else n + 1)"

text \<open>
  The binary64 value nearest to a real number, ties to even: a significand of 53 bits, so
  that a number of magnitude at least \<open>2 ^ k\<close> and below \<open>2 ^ (k + 1)\<close> is rounded to a
  multiple of \<open>2 ^ (k - 52)\<close>. The exponent is not bounded here: overflow to infinity and the subnormal range are left out, and the two
  zeros are one value. The theorems below evaluate \<open>fl\<close> only at numbers of ordinary size.
\<close>

definition fl :: "real \<Rightarrow> real" where
  "fl v =
     (if v = 0 then 0
      else (let e = \<lfloor>log 2 \<bar>v\<bar>\<rfloor> - 52 in
            of_int (round_half_even (v / 2 powr of_int e)) * 2 powr of_int e))"

text \<open>The four operations of Python on two floats.\<close>

definition fadd :: "real \<Rightarrow> real \<Rightarrow> real" where
  "fadd a b = fl (a + b)"

definition fsub :: "real \<Rightarrow> real \<Rightarrow> real" where
  "fsub a b = fl (a - b)"

definition fmul :: "real \<Rightarrow> real \<Rightarrow> real" where
  "fmul a b = fl (a * b)"

definition fdiv :: "real \<Rightarrow> real \<Rightarrow> real" where
  "fdiv a b = fl (a / b)"

subsection \<open>The math module\<close>

text \<open>
  \<^verbatim>\<open>math.radians(x)\<close> is \<^verbatim>\<open>x * degToRad\<close>, where \<^verbatim>\<open>degToRad\<close> is the binary64 constant
  \<^verbatim>\<open>Py_MATH_PI / 180.0\<close>, that is \<open>0.017453292519943295\<close>.
\<close>

definition degToRad :: real where
  "degToRad = 5030569068109113 / 2 ^ 58"

definition radians_f64 :: "real \<Rightarrow> real" where
  "radians_f64 d = fmul d degToRad"

text \<open>
  \<^verbatim>\<open>math.cos\<close> and \<^verbatim>\<open>math.sin\<close> are the platform's C library. They are taken here as
  the correctly rounded functions. At the argument zero, the only one at which the
  theorems below evaluate them, the C standard fixes the results: \<open>cos 0 = 1\<close> and
  \<open>sin 0 = 0\<close>. The \<^verbatim>\<open>ValueError\<close> that they raise at an infinite argument is left out
  with the infinities.
\<close>

definition cos_f64 :: "real \<Rightarrow> real" where
  "cos_f64 a = fl (cos a)"

definition sin_f64 :: "real \<Rightarrow> real" where
  "sin_f64 a = fl (sin a)"

subsection \<open>The functions of main.py, every operation rounded\<close>

definition pcenter_f64 :: "Rectangle \<Rightarrow> Point" where
  "pcenter_f64 self =
     \<lparr>Point.x = fadd (Rectangle.x self) (fdiv (width self) 2),
      Point.y = fadd (Rectangle.y self) (fdiv (height self) 2)\<rparr>"

definition rotate_point_f64 :: "Point \<Rightarrow> Point \<Rightarrow> real \<Rightarrow> Point" where
  "rotate_point_f64 point origin angle =
     (let angle = radians_f64 angle in
      \<lparr>Point.x =
         fadd (fsub (fmul (fsub (Point.x point) (Point.x origin)) (cos_f64 angle))
                    (fmul (fsub (Point.y point) (Point.y origin)) (sin_f64 angle)))
              (Point.x origin),
       Point.y =
         fadd (fadd (fmul (fsub (Point.x point) (Point.x origin)) (sin_f64 angle))
                    (fmul (fsub (Point.y point) (Point.y origin)) (cos_f64 angle)))
              (Point.y origin)\<rparr>)"

definition adjust_points_f64 :: "Point \<Rightarrow> Point \<Rightarrow> Point \<Rightarrow> real \<Rightarrow> Point \<times> Point" where
  "adjust_points_f64 corner_a corner_c center angle =
     (let rotated_a = rotate_point_f64 corner_a center angle;
          new_center = \<lparr>Point.x = fdiv (fadd (Point.x rotated_a) (Point.x corner_c)) 2,
                        Point.y = fdiv (fadd (Point.y rotated_a) (Point.y corner_c)) 2\<rparr>
      in (rotate_point_f64 rotated_a new_center (- angle),
          rotate_point_f64 corner_c new_center (- angle)))"

definition get_adjusted_point_f64 ::
  "Rectangle \<Rightarrow> Point \<Rightarrow> real \<Rightarrow> pyval \<Rightarrow> (Point \<times> Point) outcome" where
  "get_adjusted_point_f64 rectangle target angle handle =
     (let normal_c = rotate_point_f64 target (pcenter_f64 rectangle) (- angle) in
      if matches handle TOP_RIGHT then
        Inr (Some (\<lparr>Point.x = Rectangle.x rectangle, Point.y = Rectangle.y rectangle\<rparr>,
                   target))
      else if matches handle MIDDLE_RIGHT then
        (let interpolated_d = \<lparr>Point.x = Point.x normal_c,
                                Point.y = fadd (Rectangle.y rectangle) (height rectangle)\<rparr>
         in Inr (Some (\<lparr>Point.x = Rectangle.x rectangle, Point.y = Rectangle.y rectangle\<rparr>,
                       rotate_point_f64 interpolated_d (pcenter_f64 rectangle) angle)))
      else if matches handle BOTTOM_RIGHT then
        Inr (Some (\<lparr>Point.x = Rectangle.x rectangle,
                     Point.y = fadd (Rectangle.y rectangle) (height rectangle)\<rparr>,
                   target))
      else if matches handle TOP_LEFT then
        Inr (Some (\<lparr>Point.x = fadd (Rectangle.x rectangle) (width rectangle),
                     Point.y = Rectangle.y rectangle\<rparr>,
                   target))
      else if matches handle MIDDLE_LEFT then
        (let interpolated_d = \<lparr>Point.x = Point.x normal_c,
                                Point.y = fadd (Rectangle.y rectangle) (height rectangle)\<rparr>
         in Inr (Some (\<lparr>Point.x = fadd (Rectangle.x rectangle) (width rectangle),
                         Point.y = Rectangle.y rectangle\<rparr>,
                       rotate_point_f64 interpolated_d (pcenter_f64 rectangle) angle)))
      else if matches handle BOTTOM_LEFT then
        Inr (Some (\<lparr>Point.x = fadd (Rectangle.x rectangle) (width rectangle),
                     Point.y = fadd (Rectangle.y rectangle) (height rectangle)\<rparr>,
                   target))
      else if matches handle TOP_MIDDLE then
        (let interpolated_d = \<lparr>Point.x = fadd (Rectangle.x rectangle) (width rectangle),
                                Point.y = Point.y normal_c\<rparr>
         in Inr (Some (\<lparr>Point.x = Rectangle.x rectangle, Point.y = Rectangle.y rectangle\<rparr>,
                       rotate_point_f64 interpolated_d (pcenter_f64 rectangle) angle)))
      else if matches handle BOTTOM_MIDDLE then
        (let interpolated_d = \<lparr>Point.x = fadd (Rectangle.x rectangle) (width rectangle),
                                Point.y = Point.y normal_c\<rparr>
         in Inr (Some (\<lparr>Point.x = Rectangle.x rectangle,
                         Point.y = fadd (Rectangle.y rectangle) (height rectangle)\<rparr>,
                       rotate_point_f64 interpolated_d (pcenter_f64 rectangle) angle)))
      else Inr None)"

definition to_rect_f64 :: "Point \<Rightarrow> Point \<Rightarrow> pyval \<Rightarrow> Rectangle outcome" where
  "to_rect_f64 a c handle =
     (if matches handle TOP_RIGHT \<or> matches handle MIDDLE_RIGHT \<or> matches handle TOP_MIDDLE then
        (case Rectangle_star (iter a) (fsub (Point.x c) (Point.x a))
                (fsub (Point.y c) (Point.y a)) of
           Inl e \<Rightarrow> Inl e
         | Inr r \<Rightarrow> Inr (Some r))
      else if matches handle BOTTOM_RIGHT then
        (let height' = fsub (Point.y a) (Point.y c) in
         Inr (Some \<lparr>Rectangle.x = Point.x a, Rectangle.y = fsub (Point.y a) height',
                    width = fsub (Point.x c) (Point.x a), height = height'\<rparr>))
      else if matches handle TOP_LEFT \<or> matches handle MIDDLE_LEFT then
        (let height' = fsub (Point.y c) (Point.y a) in
         Inr (Some \<lparr>Rectangle.x = Point.x c, Rectangle.y = fsub (Point.y c) height',
                    width = fsub (Point.x a) (Point.x c), height = height'\<rparr>))
      else if matches handle BOTTOM_LEFT then
        Inr (Some \<lparr>Rectangle.x = Point.x c, Rectangle.y = Point.y c,
                   width = fsub (Point.x a) (Point.x c),
                   height = fsub (Point.y a) (Point.y c)\<rparr>)
      else if matches handle BOTTOM_MIDDLE then
        Inr (Some \<lparr>Rectangle.x = Point.x a, Rectangle.y = Point.y c,
                   width = fsub (Point.x c) (Point.x a),
                   height = fsub (Point.y a) (Point.y c)\<rparr>)
      else Inr None)"

section \<open>Notions of the specification\<close>

text \<open>
  The definitions of this section are not functions of main.py. They write down the
  specification's own words, so that its statements about the program can be compared
  with the functions above.
\<close>

text \<open>
  The specification's control flow: the resolver's pair goes to the reconstructor,
  \<^verbatim>\<open>to_rect(*get_adjusted_point(rectangle, target, angle, handle), handle)\<close>. An error
  of the resolver ends the call, and so does its \<^verbatim>\<open>None\<close>, which cannot be unpacked
  (\<^verbatim>\<open>TypeError\<close>).
\<close>

definition resolve_then_reconstruct ::
  "Rectangle \<Rightarrow> Point \<Rightarrow> real \<Rightarrow> pyval \<Rightarrow> Rectangle outcome" where
  "resolve_then_reconstruct rectangle target angle handle =
     (case get_adjusted_point rectangle target angle handle of
        Inl e \<Rightarrow> Inl e
      | Inr None \<Rightarrow> Inl TypeError
      | Inr (Some (a, c)) \<Rightarrow> to_rect a c handle)"

definition resolve_then_reconstruct_f64 ::
  "Rectangle \<Rightarrow> Point \<Rightarrow> real \<Rightarrow> pyval \<Rightarrow> Rectangle outcome" where
  "resolve_then_reconstruct_f64 rectangle target angle handle =
     (case get_adjusted_point_f64 rectangle target angle handle of
        Inl e \<Rightarrow> Inl e
      | Inr None \<Rightarrow> Inl TypeError
      | Inr (Some (a, c)) \<Rightarrow> to_rect_f64 a c handle)"

text \<open>The corner handle diagonally opposite a corner handle.\<close>

fun diagonal :: "Handle \<Rightarrow> Handle option" where
  "diagonal TOP_RIGHT = Some BOTTOM_LEFT"
| "diagonal BOTTOM_LEFT = Some TOP_RIGHT"
| "diagonal TOP_LEFT = Some BOTTOM_RIGHT"
| "diagonal BOTTOM_RIGHT = Some TOP_LEFT"
| "diagonal _ = None"

text \<open>
  Where a corner of a rectangle lies when \<open>(x, y)\<close> is its top-left corner and \<open>y\<close> grows
  downwards (the convention of the specification's data model).
\<close>

fun corner_y_down :: "Rectangle \<Rightarrow> Handle \<Rightarrow> Point option" where
  "corner_y_down r TOP_LEFT = Some \<lparr>Point.x = Rectangle.x r, Point.y = Rectangle.y r\<rparr>"
| "corner_y_down r TOP_RIGHT =
     Some \<lparr>Point.x = Rectangle.x r + width r, Point.y = Rectangle.y r\<rparr>"
| "corner_y_down r BOTTOM_LEFT =
     Some \<lparr>Point.x = Rectangle.x r, Point.y = Rectangle.y r + height r\<rparr>"
| "corner_y_down r BOTTOM_RIGHT =
     Some \<lparr>Point.x = Rectangle.x r + width r, Point.y = Rectangle.y r + height r\<rparr>"
| "corner_y_down r _ = None"

text \<open>
  Where a corner lies when \<open>(x, y)\<close> is the bottom-left corner and \<open>y\<close> grows upwards
  (the docstring of \<^verbatim>\<open>to_rect\<close>: a ``bottom left adjusted Rectangle'').
\<close>

fun corner_y_up :: "Rectangle \<Rightarrow> Handle \<Rightarrow> Point option" where
  "corner_y_up r BOTTOM_LEFT = Some \<lparr>Point.x = Rectangle.x r, Point.y = Rectangle.y r\<rparr>"
| "corner_y_up r BOTTOM_RIGHT =
     Some \<lparr>Point.x = Rectangle.x r + width r, Point.y = Rectangle.y r\<rparr>"
| "corner_y_up r TOP_LEFT =
     Some \<lparr>Point.x = Rectangle.x r, Point.y = Rectangle.y r + height r\<rparr>"
| "corner_y_up r TOP_RIGHT =
     Some \<lparr>Point.x = Rectangle.x r + width r, Point.y = Rectangle.y r + height r\<rparr>"
| "corner_y_up r _ = None"

text \<open>The Euclidean distance of two points.\<close>

definition distance :: "Point \<Rightarrow> Point \<Rightarrow> real" where
  "distance p q = sqrt ((Point.x p - Point.x q)\<^sup>2 + (Point.y p - Point.y q)\<^sup>2)"

text \<open>The midpoint of two points.\<close>

definition midpoint :: "Point \<Rightarrow> Point \<Rightarrow> Point" where
  "midpoint p q = \<lparr>Point.x = (Point.x p + Point.x q) / 2, Point.y = (Point.y p + Point.y q) / 2\<rparr>"

section \<open>Auxiliary facts\<close>

subsection \<open>Coordinates of a rotated point\<close>

lemma radians_minus: "radians (- \<theta>) = - radians \<theta>"
  by (simp add: radians_def)

lemma radians_180: "radians 180 = pi" "radians (- 180) = - pi"
  by (simp_all add: radians_def)

lemma sin_cos_radians:
  "sin (radians \<theta>) * sin (radians \<theta>) + cos (radians \<theta>) * cos (radians \<theta>) = 1"
  using sin_cos_squared_add [of "radians \<theta>"] by (simp add: power2_eq_square)

lemma rotate_point_x:
  "Point.x (rotate_point p q \<theta>) =
     (Point.x p - Point.x q) * cos (radians \<theta>)
       - (Point.y p - Point.y q) * sin (radians \<theta>) + Point.x q"
  by (simp add: rotate_point_def Let_def)

lemma rotate_point_y:
  "Point.y (rotate_point p q \<theta>) =
     (Point.x p - Point.x q) * sin (radians \<theta>)
       + (Point.y p - Point.y q) * cos (radians \<theta>) + Point.y q"
  by (simp add: rotate_point_def Let_def)

subsection \<open>Turning a vector and turning it back\<close>

lemma turn_back_x:
  fixes a b c s :: real
  assumes "s * s + c * c = 1"
  shows "(a * c - b * s) * c + (a * s + b * c) * s = a"
proof -
  have "(a * c - b * s) * c + (a * s + b * c) * s = a * (s * s + c * c)"
    by (simp add: algebra_simps)
  with assms show ?thesis by simp
qed

lemma turn_back_y:
  fixes a b c s :: real
  assumes "s * s + c * c = 1"
  shows "(a * s + b * c) * c - (a * c - b * s) * s = b"
proof -
  have "(a * s + b * c) * c - (a * c - b * s) * s = b * (s * s + c * c)"
    by (simp add: algebra_simps)
  with assms show ?thesis by simp
qed

lemma turn_norm:
  fixes a b c s :: real
  assumes "s * s + c * c = 1"
  shows "(a * c - b * s)\<^sup>2 + (a * s + b * c)\<^sup>2 = a\<^sup>2 + b\<^sup>2"
proof -
  have "(a * c - b * s)\<^sup>2 + (a * s + b * c)\<^sup>2 = (a\<^sup>2 + b\<^sup>2) * (s * s + c * c)"
    by (simp add: power2_eq_square algebra_simps)
  with assms show ?thesis by simp
qed

subsection \<open>Rotating two points about their midpoint\<close>

lemma midpoint_rotate_point:
  "midpoint (rotate_point a (midpoint a c) \<phi>) (rotate_point c (midpoint a c) \<phi>) = midpoint a c"
  by (simp add: midpoint_def rotate_point_def Let_def field_simps)

subsection \<open>Whole turns\<close>

lemma cos_whole_turns:
  "cos (radians (360 * of_int k)) = 1" "cos (radians (- (360 * of_int k))) = 1"
  using cos_int_2pin [of k] by (simp_all add: radians_def mult.assoc)

lemma sin_whole_turns:
  "sin (radians (360 * of_int k)) = 0" "sin (radians (- (360 * of_int k))) = 0"
  using sin_int_2pin [of k] by (simp_all add: radians_def mult.assoc)

lemma rotate_point_whole_turns:
  "rotate_point p q (360 * of_int k) = p" "rotate_point p q (- (360 * of_int k)) = p"
  by (simp_all add: rotate_point_def Let_def cos_whole_turns sin_whole_turns)

subsection \<open>Values that match no member\<close>

lemma no_match_8: "\<not> matches (PyInt 8) h"
  by (cases h) simp_all

subsection \<open>Unfolding the resolver and the reconstructor\<close>

lemmas pipeline_defs =
  get_adjusted_point_def to_rect_def Handle_member_def Let_def iter_def Rectangle_star_def

lemmas pipeline_f64_defs =
  get_adjusted_point_f64_def to_rect_f64_def Handle_member_def Let_def iter_def
  Rectangle_star_def rotate_point_f64_def pcenter_f64_def

lemmas f64_ops =
  fadd_def fsub_def fmul_def fdiv_def radians_f64_def cos_f64_def sin_f64_def

subsection \<open>Over the reals, half a turn changes the untouched dimension\<close>

text \<open>
  In exact arithmetic, dragging \<^verbatim>\<open>MIDDLE_RIGHT\<close> of \<^verbatim>\<open>Rectangle(0,0,2,2)\<close> to \<open>(3, 3)\<close> at
  180 degrees gives a rectangle of height 0: away from the whole turns the formulas
  themselves do not keep the height.
\<close>

lemma half_turn_over_the_reals:
  "resolve_then_reconstruct \<lparr>Rectangle.x = 0, y = 0, width = 2, height = 2\<rparr>
       \<lparr>Point.x = 3, y = 3\<rparr> 180 (Handle_member MIDDLE_RIGHT)
     = Inr (Some \<lparr>Rectangle.x = 0, y = 0, width = 3, height = 0\<rparr>)"
  by (simp add: resolve_then_reconstruct_def pipeline_defs rotate_point_def pcenter_def
      radians_180)

subsection \<open>Evaluating the rounding\<close>

text \<open>
  Once the binade of a number is known, its rounding is a rounding of a quotient to an
  integer.
\<close>

lemma fl_0: "fl 0 = 0"
  by (simp add: fl_def)

lemma fl_binade:
  assumes "2 powr of_int k \<le> \<bar>v\<bar>" and "\<bar>v\<bar> < 2 powr of_int (k + 1)"
  shows "fl v = of_int (round_half_even (v / 2 powr of_int (k - 52))) * 2 powr of_int (k - 52)"
proof -
  have pos: "0 < \<bar>v\<bar>"
    using assms(1) powr_gt_zero [of 2 "of_int k"] by linarith
  then have nz: "v \<noteq> 0" by auto
  have "of_int k \<le> log 2 \<bar>v\<bar>"
    using assms(1) pos by (simp add: le_log_iff)
  moreover have "log 2 \<bar>v\<bar> < of_int k + 1"
    using assms(2) pos by (simp add: log_less_iff)
  ultimately have "\<lfloor>log 2 \<bar>v\<bar>\<rfloor> = k"
    by (simp add: floor_unique)
  then show ?thesis
    using nz by (simp add: fl_def Let_def)
qed

lemmas rnd = round_half_even_def Let_def powr_minus

text \<open>Numbers that are binary64 values stay as they are.\<close>

lemma fl_1: "fl 1 = 1"
  using fl_binade [of 0 1] by (simp add: rnd)

lemma fl_3: "fl 3 = 3"
  using fl_binade [of 1 3] by (simp add: rnd)

lemma fl_half: "fl (1 / 2) = 1 / 2"
  using fl_binade [of "- 1" "1 / 2"] by (simp add: rnd)

lemma fl_5_half: "fl (5 / 2) = 5 / 2"
  using fl_binade [of 1 "5 / 2"] by (simp add: rnd)

lemma fl_m1: "fl (- 1) = - 1"
  using fl_binade [of 0 "- 1"] by (simp add: rnd)

lemma fl_m_half: "fl (- (1 / 2)) = - (1 / 2)"
  using fl_binade [of "- 1" "- (1 / 2)"] by (simp add: rnd)

lemma fl_1e16: "fl 10000000000000000 = 10000000000000000"
  using fl_binade [of 53 10000000000000000] by (simp add: rnd)

lemma fl_2p52: "fl 4503599627370496 = 4503599627370496"
  using fl_binade [of 52 4503599627370496] by (simp add: rnd)

lemma fl_m2p52: "fl (- 4503599627370496) = - 4503599627370496"
  using fl_binade [of 52 "- 4503599627370496"] by (simp add: rnd)

lemma fl_2p53: "fl 9007199254740992 = 9007199254740992"
  using fl_binade [of 53 9007199254740992] by (simp add: rnd)

lemma fl_2p53_m1: "fl 9007199254740991 = 9007199254740991"
  using fl_binade [of 52 9007199254740991] by (simp add: rnd)

lemma fl_2p53_m1_half: "fl (9007199254740991 / 2) = 9007199254740991 / 2"
  using fl_binade [of 51 "9007199254740991 / 2"] by (simp add: rnd)

lemma fl_m9999999999999996: "fl (- 9999999999999996) = - 9999999999999996"
  using fl_binade [of 53 "- 9999999999999996"] by (simp add: rnd)

text \<open>
  From \<open>2 ^ 53\<close> on the binary64 values are the even integers, and between \<open>2 ^ 52\<close> and
  \<open>2 ^ 53\<close> they are the integers: the numbers halfway go to the even significand.
\<close>

lemma fl_1e16_p1: "fl 10000000000000001 = 10000000000000000"
  using fl_binade [of 53 10000000000000001] by (simp add: rnd)

lemma fl_1e16_m1: "fl 9999999999999999 = 10000000000000000"
  using fl_binade [of 53 9999999999999999] by (simp add: rnd)

lemma fl_1e16_p_half: "fl (20000000000000001 / 2) = 10000000000000000"
  using fl_binade [of 53 "20000000000000001 / 2"] by (simp add: rnd)

lemma fl_m9999999999999997: "fl (- 9999999999999997) = - 9999999999999996"
  using fl_binade [of 53 "- 9999999999999997"] by (simp add: rnd)

lemma fl_2p53_p1: "fl 9007199254740993 = 9007199254740992"
  using fl_binade [of 53 9007199254740993] by (simp add: rnd)

lemma fl_2p52_half: "fl (9007199254740993 / 2) = 4503599627370496"
  using fl_binade [of 52 "9007199254740993 / 2"] by (simp add: rnd)

lemma fl_m_2p52_half: "fl (- (9007199254740993 / 2)) = - 4503599627370496"
  using fl_binade [of 52 "- (9007199254740993 / 2)"] by (simp add: rnd)

lemma fl_2p53_m_half: "fl (18014398509481983 / 2) = 9007199254740992"
  using fl_binade [of 52 "18014398509481983 / 2"] by (simp add: rnd)

lemmas fl_values =
  fl_0 fl_1 fl_3 fl_half fl_5_half fl_m1 fl_m_half fl_1e16 fl_2p52 fl_m2p52 fl_2p53
  fl_2p53_m1 fl_2p53_m1_half fl_m9999999999999996
  fl_1e16_p1 fl_1e16_m1 fl_1e16_p_half fl_m9999999999999997 fl_2p53_p1
  fl_2p52_half fl_m_2p52_half fl_2p53_m_half

section \<open>The claims\<close>

subsection \<open>C1: the worked example\<close>

text \<open>
  Claim C1. For \<^verbatim>\<open>Rectangle(0,0,2,2)\<close>, target \<^verbatim>\<open>Point(3,3)\<close>, angle 45 degrees and
  handle \<^verbatim>\<open>BOTTOM_RIGHT\<close>, \<^verbatim>\<open>get_adjusted_point\<close> returns the pair of the fixed point
  \<^verbatim>\<open>Point(0,2)\<close> and the moving point \<^verbatim>\<open>Point(3,3)\<close>, and \<^verbatim>\<open>to_rect\<close> on that pair with
  the same handle returns \<^verbatim>\<open>Rectangle(x=0, y=3, width=3, height=-1)\<close>: the negative
  height is a returned value, not an error.
\<close>

theorem C1_bottom_right_example:
  "get_adjusted_point \<lparr>Rectangle.x = 0, y = 0, width = 2, height = 2\<rparr>
       \<lparr>Point.x = 3, y = 3\<rparr> 45 (Handle_member BOTTOM_RIGHT)
     = Inr (Some (\<lparr>Point.x = 0, y = 2\<rparr>, \<lparr>Point.x = 3, y = 3\<rparr>))
   \<and> to_rect \<lparr>Point.x = 0, y = 2\<rparr> \<lparr>Point.x = 3, y = 3\<rparr> (Handle_member BOTTOM_RIGHT)
     = Inr (Some \<lparr>Rectangle.x = 0, y = 3, width = 3, height = - 1\<rparr>)"
  by (simp add: get_adjusted_point_def to_rect_def Handle_member_def Let_def)

subsection \<open>C2: corner handles\<close>

text \<open>
  Claim C2, as the program has it. For every rectangle, target and angle, and for each
  of the four corner handles, \<^verbatim>\<open>get_adjusted_point\<close> returns the target unchanged as the
  moving point, and as the fixed point the diagonally opposite corner where \<open>(x, y)\<close>
  is the bottom-left corner and \<open>y\<close> grows upwards: \<open>(x, y)\<close> for \<^verbatim>\<open>TOP_RIGHT\<close>,
  \<open>(x, y + height)\<close> for \<^verbatim>\<open>BOTTOM_RIGHT\<close>, \<open>(x + width, y)\<close> for \<^verbatim>\<open>TOP_LEFT\<close> and
  \<open>(x + width, y + height)\<close> for \<^verbatim>\<open>BOTTOM_LEFT\<close>.
\<close>

theorem C2_corner_fixed_is_diagonal_y_up:
  assumes "diagonal h = Some d"
  shows "\<exists>a. corner_y_up R d = Some a
           \<and> get_adjusted_point R t angle (Handle_member h) = Inr (Some (a, t))"
  using assms
  by (cases h) (simp_all add: get_adjusted_point_def Handle_member_def Let_def)

theorem C2_corner_fixed_is_diagonal_y_up_witness:
  "diagonal TOP_RIGHT = Some BOTTOM_LEFT
   \<and> (\<exists>a. corner_y_up \<lparr>Rectangle.x = 0, y = 0, width = 2, height = 2\<rparr> BOTTOM_LEFT = Some a
          \<and> get_adjusted_point \<lparr>Rectangle.x = 0, y = 0, width = 2, height = 2\<rparr>
               \<lparr>Point.x = 3, y = 3\<rparr> 45 (Handle_member TOP_RIGHT)
             = Inr (Some (a, \<lparr>Point.x = 3, y = 3\<rparr>)))"
  using C2_corner_fixed_is_diagonal_y_up [of TOP_RIGHT BOTTOM_LEFT
      "\<lparr>Rectangle.x = 0, y = 0, width = 2, height = 2\<rparr>" "\<lparr>Point.x = 3, y = 3\<rparr>" 45]
  by simp

text \<open>
  With \<open>(x, y)\<close> the top-left corner, the corner diagonally opposite \<^verbatim>\<open>TOP_RIGHT\<close> of
  \<^verbatim>\<open>Rectangle(0,0,2,2)\<close> is the bottom-left corner \<open>(0, 2)\<close>; the program returns
  \<open>(0, 0)\<close> as the fixed point.
\<close>

theorem C2_top_left_convention_counterexample:
  "diagonal TOP_RIGHT = Some BOTTOM_LEFT
   \<and> corner_y_down \<lparr>Rectangle.x = 0, y = 0, width = 2, height = 2\<rparr> BOTTOM_LEFT
       = Some \<lparr>Point.x = 0, y = 2\<rparr>
   \<and> get_adjusted_point \<lparr>Rectangle.x = 0, y = 0, width = 2, height = 2\<rparr>
         \<lparr>Point.x = 3, y = 3\<rparr> 45 (Handle_member TOP_RIGHT)
       = Inr (Some (\<lparr>Point.x = 0, y = 0\<rparr>, \<lparr>Point.x = 3, y = 3\<rparr>))
   \<and> get_adjusted_point \<lparr>Rectangle.x = 0, y = 0, width = 2, height = 2\<rparr>
         \<lparr>Point.x = 3, y = 3\<rparr> 45 (Handle_member TOP_RIGHT)
       \<noteq> Inr (Some (\<lparr>Point.x = 0, y = 2\<rparr>, \<lparr>Point.x = 3, y = 3\<rparr>))"
  by (simp add: get_adjusted_point_def Handle_member_def Let_def)

subsection \<open>C3: edge-midpoint handles and the untouched dimension\<close>

text \<open>
  Claim C3, as the formulas have it. Over exact real arithmetic, for every rectangle and
  target and every angle that is a whole multiple of 360 degrees (0 among them), the
  resolver followed by the reconstructor returns a rectangle whose height is the
  original height for \<^verbatim>\<open>MIDDLE_RIGHT\<close> and \<^verbatim>\<open>MIDDLE_LEFT\<close>, and whose width is the
  original width for \<^verbatim>\<open>TOP_MIDDLE\<close> and \<^verbatim>\<open>BOTTOM_MIDDLE\<close>.
\<close>

theorem C3_untouched_dimension:
  "(\<exists>r. resolve_then_reconstruct R t (360 * of_int k) (Handle_member MIDDLE_RIGHT)
          = Inr (Some r) \<and> height r = height R)
   \<and> (\<exists>r. resolve_then_reconstruct R t (360 * of_int k) (Handle_member MIDDLE_LEFT)
          = Inr (Some r) \<and> height r = height R)
   \<and> (\<exists>r. resolve_then_reconstruct R t (360 * of_int k) (Handle_member TOP_MIDDLE)
          = Inr (Some r) \<and> width r = width R)
   \<and> (\<exists>r. resolve_then_reconstruct R t (360 * of_int k) (Handle_member BOTTOM_MIDDLE)
          = Inr (Some r) \<and> width r = width R)"
  by (simp add: resolve_then_reconstruct_def pipeline_defs rotate_point_whole_turns)

text \<open>
  In binary64 the height is lost already at angle 0. For \<^verbatim>\<open>Rectangle(0.0, 1e16, 1.0, 1.0)\<close>
  the sum \<^verbatim>\<open>y + height\<close> rounds to \<open>1e16\<close>, so dragging \<^verbatim>\<open>MIDDLE_RIGHT\<close> to \<open>(3, 3)\<close> gives
  the moving point \<open>(3, 1e16)\<close> and the rectangle \<^verbatim>\<open>Rectangle(0.0, 1e16, 3.0, 0.0)\<close>: height
  0, not 1.
\<close>

theorem C3_rounding_counterexample:
  "resolve_then_reconstruct_f64
       \<lparr>Rectangle.x = 0, y = 10000000000000000, width = 1, height = 1\<rparr>
       \<lparr>Point.x = 3, y = 3\<rparr> 0 (Handle_member MIDDLE_RIGHT)
     = Inr (Some \<lparr>Rectangle.x = 0, y = 10000000000000000, width = 3, height = 0\<rparr>)
   \<and> height \<lparr>Rectangle.x = 0, y = 10000000000000000, width = 3, height = 0\<rparr>
       \<noteq> height \<lparr>Rectangle.x = 0, y = 10000000000000000, width = 1, height = 1\<rparr>"
  by (simp add: resolve_then_reconstruct_f64_def pipeline_f64_defs f64_ops fl_values)

subsection \<open>C4: a value that is no handle\<close>

text \<open>
  Claim C4, as the program has it. For every value that compares equal to none of the
  eight members of \<^verbatim>\<open>Handle\<close>, no case of the \<^verbatim>\<open>match\<close> statement applies:
  \<^verbatim>\<open>get_adjusted_point\<close> and \<^verbatim>\<open>to_rect\<close> raise nothing and return \<^verbatim>\<open>None\<close>.
\<close>

theorem C4_no_handle_returns_None:
  assumes "\<forall>h. \<not> matches v h"
  shows "get_adjusted_point R t angle v = Inr None \<and> to_rect a c v = Inr None"
  using assms by (simp add: get_adjusted_point_def to_rect_def Let_def)

theorem C4_no_handle_returns_None_witness:
  "(\<forall>h. \<not> matches (PyInt 8) h)
   \<and> get_adjusted_point \<lparr>Rectangle.x = 0, y = 0, width = 2, height = 2\<rparr>
        \<lparr>Point.x = 3, y = 3\<rparr> 45 (PyInt 8) = Inr None
   \<and> to_rect \<lparr>Point.x = 0, y = 2\<rparr> \<lparr>Point.x = 3, y = 3\<rparr> (PyInt 8) = Inr None"
  using C4_no_handle_returns_None [of "PyInt 8"
      "\<lparr>Rectangle.x = 0, y = 0, width = 2, height = 2\<rparr>" "\<lparr>Point.x = 3, y = 3\<rparr>" 45
      "\<lparr>Point.x = 0, y = 2\<rparr>" "\<lparr>Point.x = 3, y = 3\<rparr>"]
    no_match_8
  by simp

text \<open>
  The string \<^verbatim>\<open>"TOP_RIGHT"\<close> is no member of \<^verbatim>\<open>Handle\<close>; neither function raises on it.
\<close>

theorem C4_no_error_counterexample:
  "\<not> isl (get_adjusted_point \<lparr>Rectangle.x = 0, y = 0, width = 2, height = 2\<rparr>
             \<lparr>Point.x = 3, y = 3\<rparr> 45 (PyStr ''TOP_RIGHT''))
   \<and> \<not> isl (to_rect \<lparr>Point.x = 0, y = 2\<rparr> \<lparr>Point.x = 3, y = 3\<rparr> (PyStr ''TOP_RIGHT''))"
  by (simp add: get_adjusted_point_def to_rect_def Let_def)

subsection \<open>C5: the identity drag\<close>

text \<open>
  Claim C5, as the formulas have it. Over exact real arithmetic, for every rectangle
  \<open>R\<close>, at angle 0 and with handle \<^verbatim>\<open>TOP_RIGHT\<close>, dragging to the point
  \<open>(R.x + R.width, R.y + R.height)\<close> and reconstructing with \<^verbatim>\<open>to_rect\<close> returns \<open>R\<close>
  unchanged.
\<close>

theorem C5_identity_drag:
  "resolve_then_reconstruct R
       \<lparr>Point.x = Rectangle.x R + width R, Point.y = Rectangle.y R + height R\<rparr>
       0 (Handle_member TOP_RIGHT)
     = Inr (Some R)"
  by (simp add: resolve_then_reconstruct_def pipeline_defs)

text \<open>
  In binary64, \<^verbatim>\<open>Rectangle(1e16, 0.0, 1.0, 1.0)\<close> has the corner
  \<^verbatim>\<open>(1e16 + 1.0, 0.0 + 1.0) = (1e16, 1.0)\<close>, and the identity drag returns
  \<^verbatim>\<open>Rectangle(1e16, 0.0, 0.0, 1.0)\<close>: the width 1 has become 0.
\<close>

theorem C5_rounding_counterexample:
  "resolve_then_reconstruct_f64 \<lparr>Rectangle.x = 10000000000000000, y = 0, width = 1, height = 1\<rparr>
       \<lparr>Point.x = fadd 10000000000000000 1, Point.y = fadd 0 1\<rparr>
       0 (Handle_member TOP_RIGHT)
     = Inr (Some \<lparr>Rectangle.x = 10000000000000000, y = 0, width = 0, height = 1\<rparr>)
   \<and> resolve_then_reconstruct_f64 \<lparr>Rectangle.x = 10000000000000000, y = 0, width = 1, height = 1\<rparr>
       \<lparr>Point.x = fadd 10000000000000000 1, Point.y = fadd 0 1\<rparr>
       0 (Handle_member TOP_RIGHT)
     \<noteq> Inr (Some \<lparr>Rectangle.x = 10000000000000000, y = 0, width = 1, height = 1\<rparr>)"
  by (simp add: resolve_then_reconstruct_f64_def pipeline_f64_defs f64_ops fl_values)

subsection \<open>C6 and C7: rotation\<close>

text \<open>
  Claim C6. For every point \<open>p\<close>, origin \<open>q\<close> and angle \<open>\<theta>\<close>, rotating \<open>p\<close> about \<open>q\<close> by
  \<open>\<theta>\<close> and then by \<open>- \<theta>\<close> gives \<open>p\<close> back (over exact real arithmetic).
\<close>

theorem C6_rotate_inverse: "rotate_point (rotate_point p q \<theta>) q (- \<theta>) = p"
proof (rule Point.equality)
  show "Point.x (rotate_point (rotate_point p q \<theta>) q (- \<theta>)) = Point.x p"
    using turn_back_x [OF sin_cos_radians, of "Point.x p - Point.x q" \<theta> "Point.y p - Point.y q"]
    by (simp add: rotate_point_x rotate_point_y radians_minus)
  show "Point.y (rotate_point (rotate_point p q \<theta>) q (- \<theta>)) = Point.y p"
    using turn_back_y [OF sin_cos_radians, of "Point.x p - Point.x q" \<theta> "Point.y p - Point.y q"]
    by (simp add: rotate_point_x rotate_point_y radians_minus)
  show "Point.more (rotate_point (rotate_point p q \<theta>) q (- \<theta>)) = Point.more p"
    by simp
qed

text \<open>
  Claim C7, as the formulas have it. Over exact real arithmetic, for every point \<open>p\<close>,
  origin \<open>q\<close> and angle \<open>\<theta>\<close>, the distance between \<open>p\<close> and \<open>q\<close> equals the distance
  between the rotated point and \<open>q\<close>.
\<close>

theorem C7_rotate_keeps_distance: "distance p q = distance (rotate_point p q \<theta>) q"
  using turn_norm [OF sin_cos_radians, of "Point.x p - Point.x q" \<theta> "Point.y p - Point.y q"]
  by (simp add: distance_def rotate_point_x rotate_point_y)

text \<open>
  In binary64, rotating \<open>(0, 9007199254740994)\<close> about \<open>(0, 1)\<close> by 0 degrees returns
  \<open>(0, 9007199254740992)\<close>: the difference \<^verbatim>\<open>point.y - origin.y\<close> and the sum that adds
  \<^verbatim>\<open>origin.y\<close> back both round down. The point was at distance \<open>9007199254740993\<close> from
  the origin of the rotation, the returned point is at distance \<open>9007199254740991\<close>
  (computed in binary64 themselves, the two distances are \<open>9007199254740992\<close> and
  \<open>9007199254740991\<close>).
\<close>

theorem C7_rounding_counterexample:
  "rotate_point_f64 \<lparr>Point.x = 0, y = 9007199254740994\<rparr> \<lparr>Point.x = 0, y = 1\<rparr> 0
     = \<lparr>Point.x = 0, y = 9007199254740992\<rparr>
   \<and> distance \<lparr>Point.x = 0, y = 9007199254740994\<rparr> \<lparr>Point.x = 0, y = 1\<rparr>
       \<noteq> distance \<lparr>Point.x = 0, y = 9007199254740992\<rparr> \<lparr>Point.x = 0, y = 1\<rparr>"
  by (simp add: rotate_point_f64_def Let_def f64_ops fl_values distance_def)

subsection \<open>C8: indexing a point\<close>

text \<open>
  Claim C8. Indexing a point by an integer returns \<open>x\<close> at index 0 and \<open>y\<close> at index 1,
  and raises \<^verbatim>\<open>IndexError\<close> at every other integer index.
\<close>

theorem C8_getitem:
  "getitem p (PyInt 0) = Inr (Point.x p)
   \<and> getitem p (PyInt 1) = Inr (Point.y p)
   \<and> (\<forall>i. i \<noteq> 0 \<longrightarrow> i \<noteq> 1 \<longrightarrow> getitem p (PyInt i) = Inl IndexError)"
  by (simp add: getitem_def)

theorem C8_getitem_witness:
  "getitem \<lparr>Point.x = 3, y = 4\<rparr> (PyInt 0) = Inr 3
   \<and> getitem \<lparr>Point.x = 3, y = 4\<rparr> (PyInt 1) = Inr 4
   \<and> (2::int) \<noteq> 0 \<and> (2::int) \<noteq> 1
   \<and> getitem \<lparr>Point.x = 3, y = 4\<rparr> (PyInt 2) = Inl IndexError
   \<and> (- 1::int) \<noteq> 0 \<and> (- 1::int) \<noteq> 1
   \<and> getitem \<lparr>Point.x = 3, y = 4\<rparr> (PyInt (- 1)) = Inl IndexError"
  using C8_getitem [of "\<lparr>Point.x = 3, y = 4\<rparr>"] by simp

subsection \<open>C9: the span of the reconstructed rectangle\<close>

text \<open>
  Claim C9, as the formulas have it. Over exact real arithmetic, for each of the eight
  handles and all points \<open>a\<close> (fixed) and \<open>c\<close> (moving), \<^verbatim>\<open>to_rect\<close> returns a rectangle
  \<open>r\<close> with \<open>{r.x, r.x + r.width} = {a.x, c.x}\<close> and
  \<open>{r.y, r.y + r.height} = {a.y, c.y}\<close>.
\<close>

theorem C9_to_rect_span:
  "\<exists>r. to_rect a c (Handle_member h) = Inr (Some r)
      \<and> {Rectangle.x r, Rectangle.x r + width r} = {Point.x a, Point.x c}
      \<and> {Rectangle.y r, Rectangle.y r + height r} = {Point.y a, Point.y c}"
  by (cases h) (auto simp add: to_rect_def Handle_member_def Let_def iter_def Rectangle_star_def)

text \<open>
  In binary64, \<^verbatim>\<open>to_rect(Point(0.0, 1e16), Point(1.0, 1.0), BOTTOM_RIGHT)\<close> computes the
  height \<^verbatim>\<open>1e16 - 1.0 = 1e16\<close> and \<^verbatim>\<open>y = 1e16 - 1e16 = 0.0\<close> and returns
  \<^verbatim>\<open>Rectangle(0.0, 0.0, 1.0, 1e16)\<close>: its vertical extent is \<open>{0, 1e16}\<close>, not \<open>{1e16, 1}\<close>.
\<close>

theorem C9_rounding_counterexample:
  "to_rect_f64 \<lparr>Point.x = 0, y = 10000000000000000\<rparr> \<lparr>Point.x = 1, y = 1\<rparr>
       (Handle_member BOTTOM_RIGHT)
     = Inr (Some \<lparr>Rectangle.x = 0, y = 0, width = 1, height = 10000000000000000\<rparr>)
   \<and> {Rectangle.y \<lparr>Rectangle.x = 0, y = 0, width = 1, height = 10000000000000000\<rparr>,
       Rectangle.y \<lparr>Rectangle.x = 0, y = 0, width = 1, height = 10000000000000000\<rparr>
         + height \<lparr>Rectangle.x = 0, y = 0, width = 1, height = 10000000000000000\<rparr>}
       \<noteq> {Point.y \<lparr>Point.x = 0, y = 10000000000000000\<rparr>, Point.y \<lparr>Point.x = 1, y = 1\<rparr>}"
  by (simp add: to_rect_f64_def Handle_member_def Let_def f64_ops fl_values doubleton_eq_iff)

subsection \<open>C10: adjust\_points keeps the new centre\<close>

text \<open>
  Claim C10, as the formulas have it. Over exact real arithmetic, for all points
  \<^verbatim>\<open>corner_a\<close> and \<^verbatim>\<open>corner_c\<close>, every centre and every angle, the midpoint of the pair
  returned by \<^verbatim>\<open>adjust_points\<close> is the midpoint of the rotated \<^verbatim>\<open>corner_a\<close> and
  \<^verbatim>\<open>corner_c\<close>, that is the new centre computed inside.
\<close>

theorem C10_adjust_points_midpoint:
  "case adjust_points corner_a corner_c center angle of
     (a', c') \<Rightarrow> midpoint a' c' = midpoint (rotate_point corner_a center angle) corner_c"
  using midpoint_rotate_point [of "rotate_point corner_a center angle" corner_c "- angle"]
  by (simp add: adjust_points_def Let_def midpoint_def)

text \<open>
  In binary64, \<^verbatim>\<open>adjust_points(Point(-1.0, 0.0), Point(9007199254740992.0, 0.0),
  Point(0.0, 0.0), 0.0)\<close> leaves \<^verbatim>\<open>corner_a\<close> where it is, takes
  \<open>(4503599627370495.5, 0)\<close> as the new centre and returns the pair \<open>(-0.5, 0)\<close>,
  \<open>(9007199254740992, 0)\<close>, whose midpoint is \<open>(4503599627370495.75, 0)\<close> (and
  \<open>(4503599627370496, 0)\<close> when it is computed in binary64).
\<close>

theorem C10_rounding_counterexample:
  "adjust_points_f64 \<lparr>Point.x = - 1, y = 0\<rparr> \<lparr>Point.x = 9007199254740992, y = 0\<rparr>
       \<lparr>Point.x = 0, y = 0\<rparr> 0
     = (\<lparr>Point.x = - (1 / 2), y = 0\<rparr>, \<lparr>Point.x = 9007199254740992, y = 0\<rparr>)
   \<and> rotate_point_f64 \<lparr>Point.x = - 1, y = 0\<rparr> \<lparr>Point.x = 0, y = 0\<rparr> 0
     = \<lparr>Point.x = - 1, y = 0\<rparr>
   \<and> midpoint \<lparr>Point.x = - (1 / 2), y = 0\<rparr> \<lparr>Point.x = 9007199254740992, y = 0\<rparr>
       \<noteq> midpoint \<lparr>Point.x = - 1, y = 0\<rparr> \<lparr>Point.x = 9007199254740992, y = 0\<rparr>"
  by (simp add: adjust_points_f64_def rotate_point_f64_def Let_def f64_ops fl_values
      midpoint_def)

end
